theory Spec2Isabelle
  imports Main
begin

section \<open>The deployment orchestrator of packages/aws-cdk/lib/api/deployments.ts\<close>

text \<open>
  The class \<open>Deployments\<close> resolves credentials for a stack's environment, caches the
  clients it obtains, checks the bootstrap version of the environment before it changes
  anything, drives the rollback loop and caches one asset publisher per manifest.

  Every method is asynchronous and talks to collaborators that are not part of the file
  (the SDK provider, the CloudFormation client, the event poller, the activity monitor,
  the asset publisher). The embedding makes both explicit:
  \<^item> the instance is a record \<open>Deployments\<close> holding the two caches and the trace of every
    call that left the instance, in order;
  \<^item> the collaborators are a record \<open>world\<close> of functions; each answers from the trace of
    the calls made so far, so the same call may be answered differently later on;
  \<^item> a thrown \<open>Error\<close> is the left summand of the result; the instance state reached when
    it was thrown is kept.
\<close>

subsection \<open>Values of the language\<close>

datatype error = Error (message: string)

text \<open>Truthiness of the optional values the code tests with \<open>if (x)\<close>, \<open>x && y\<close>, \<open>!x\<close>.\<close>

fun truthy :: "bool option \<Rightarrow> bool" where
  "truthy None = False"
| "truthy (Some b) = b"

fun truthyString :: "string option \<Rightarrow> bool" where
  "truthyString None = False"
| "truthyString (Some s) = (s \<noteq> [])"

fun truthyNumber :: "int option \<Rightarrow> bool" where
  "truthyNumber None = False"
| "truthyNumber (Some n) = (n \<noteq> 0)"

text \<open>\<open>a ?? b\<close> on an optional string, and \<open>`${a}`\<close> of an optional string.\<close>

fun orElse :: "'a option \<Rightarrow> 'a \<Rightarrow> 'a" where
  "orElse None d = d"
| "orElse (Some x) d = x"

fun template :: "string option \<Rightarrow> string" where
  "template None = ''undefined''"
| "template (Some s) = s"

text \<open>\<open>Array.prototype.join\<close>.\<close>

fun join :: "string \<Rightarrow> string list \<Rightarrow> string" where
  "join sep [] = []"
| "join sep [x] = x"
| "join sep (x # y # ys) = x @ sep @ join sep (y # ys)"

text \<open>\<open>String.prototype.includes\<close>.\<close>

fun string_includes :: "string \<Rightarrow> string \<Rightarrow> bool" where
  "string_includes [] sub = (sub = [])"
| "string_includes (c # cs) sub = (take (length sub) (c # cs) = sub \<or> string_includes cs sub)"

text \<open>Decimal rendering of an integer inside a template literal.\<close>

definition digit :: "nat \<Rightarrow> char" where
  "digit d = ''0123456789'' ! d"

fun showNat :: "nat \<Rightarrow> string" where
  "showNat n = (if n < 10 then [digit n] else showNat (n div 10) @ [digit (n mod 10)])"

declare showNat.simps [simp del]

definition showInt :: "int \<Rightarrow> string" where
  "showInt i = (if i < 0 then CHR ''-'' # showNat (nat (- i)) else showNat (nat i))"

text \<open>Line 928: \<open>suffixWithErrors(msg, errors?)\<close>.\<close>

definition suffixWithErrors :: "string \<Rightarrow> string list option \<Rightarrow> string" where
  "suffixWithErrors msg errors =
     (case errors of
        None \<Rightarrow> msg
      | Some es \<Rightarrow> if length es > 0 then msg @ '': '' @ join '', '' es else msg)"

subsection \<open>Data model\<close>

record Environment =
  account :: string
  region :: string
  envName :: string

datatype Mode = ForReading | ForWriting

text \<open>
  \<open>assumeRoleAdditionalOptions\<close> is an object of arbitrary string keys; only its
  \<open>JSON.stringify\<close> is ever taken, which the world supplies.
\<close>

datatype AdditionalOptions = AdditionalOptions "(string \<times> string) list"

record CredentialsOptions =
  cred_assumeRoleArn :: "string option"
  cred_assumeRoleExternalId :: "string option"
  cred_assumeRoleAdditionalOptions :: "AdditionalOptions option"

text \<open>An SDK client is an object; \<open>ISDK\<close> is its identity.\<close>

type_synonym ISDK = nat

record SdkForEnvironment =
  sdk :: ISDK
  didAssumeRole :: bool

record BootstrapRole =
  arn :: string
  role_assumeRoleExternalId :: "string option"
  role_requiresBootstrapStackVersion :: "int option"
  role_bootstrapStackVersionSsmParameter :: "string option"
  role_assumeRoleAdditionalOptions :: "AdditionalOptions option"

record CloudFormationStackArtifact =
  stackName :: string
  displayName :: string
  environment :: "Environment option"
  assumeRoleArn :: "string option"
  assumeRoleExternalId :: "string option"
  assumeRoleAdditionalOptions :: "AdditionalOptions option"
  cloudFormationExecutionRoleArn :: "string option"
  requiresBootstrapStackVersion :: "int option"
  bootstrapStackVersionSsmParameter :: "string option"
  lookupRole :: "BootstrapRole option"

text \<open>
  \<open>EnvironmentResourcesRegistry.for(environment, sdk)\<close> hands out the accessor of one
  environment and client; the accessor is identified by that pair.
\<close>

record EnvironmentResources =
  er_environment :: Environment
  er_sdk :: ISDK

definition environmentResources_for :: "Environment \<Rightarrow> ISDK \<Rightarrow> EnvironmentResources" where
  "environmentResources_for env client = \<lparr>er_environment = env, er_sdk = client\<rparr>"

record PreparedSdkForEnvironment =
  stackSdk :: ISDK
  resolvedEnvironment :: Environment
  cloudFormationRoleArn :: "string option"
  envResources :: EnvironmentResources

record PreparedSdkWithLookupRoleForEnvironment =
  lookup_sdk :: ISDK
  lookup_didAssumeRole :: bool
  lookup_resolvedEnvironment :: Environment
  lookup_envResources :: EnvironmentResources

text \<open>
  \<open>RollbackChoice\<close> has four members; \<open>UNEXPECTED\<close> stands for any other value that
  reaches the \<open>default\<close> branch of the switch at line 574, with its rendering.
\<close>

datatype RollbackChoice =
    NONE
  | START_ROLLBACK
  | CONTINUE_UPDATE_ROLLBACK
  | ROLLBACK_FAILED
  | UNEXPECTED string

text \<open>
  The status of a stack as \<open>CloudFormationStack.lookup\<close> and \<open>stabilizeStack\<close> report it:
  the two getters the loop reads and the text of \<open>toString()\<close>.
\<close>

record StackStatus =
  rollbackChoice :: RollbackChoice
  isRollbackSuccess :: bool
  statusText :: string

record CloudFormationStack =
  stackStatus :: StackStatus

text \<open>A failed resource as \<open>StackEventPoller.resourceErrors\<close> lists it.\<close>

record ResourceEvent =
  isStackEvent :: bool
  parentStackLogicalIds :: "string list"
  LogicalResourceId :: "string option"

record RollbackStackResult =
  notInRollbackableState :: "bool option"
  success :: "bool option"

record RollbackStackOptions =
  stack :: CloudFormationStackArtifact
  roleArn :: "string option"
  quiet :: "bool option"
  ci :: "bool option"
  force :: "bool option"
  orphanLogicalIds :: "string list option"
  opt_validateBootstrapStackVersion :: "bool option"

text \<open>
  Of \<open>DeployStackOptions\<close> the method reads the stack, the role and the three fields that
  select the deployment method; the others are handed to the delegate unchanged.
\<close>

datatype DeploymentMethod = Direct | ChangeSet "bool option" "string option"

datatype OtherDeployOptions = OtherDeployOptions string

record DeployStackOptions =
  deploy_stack :: CloudFormationStackArtifact
  deploy_roleArn :: "string option"
  deploymentMethod :: "DeploymentMethod option"
  changeSetName :: "string option"
  execute :: "bool option"
  otherOptions :: OtherDeployOptions

datatype DeployStackResult = DeployStackResult string

text \<open>The argument of the delegated \<open>deployStack\<close> of lib/api/deploy-stack.ts.\<close>

record DeployRequest =
  request_stack :: CloudFormationStackArtifact
  request_resolvedEnvironment :: Environment
  request_sdk :: ISDK
  request_roleArn :: "string option"
  request_envResources :: EnvironmentResources
  request_deploymentMethod :: "DeploymentMethod option"
  request_otherOptions :: OtherDeployOptions

text \<open>
  An asset manifest is an object, used as the key of the publisher cache:
  \<open>AssetManifest\<close> is its identity.
\<close>

type_synonym AssetManifest = nat

record AssetManifestArtifact =
  asset_requiresBootstrapStackVersion :: "int option"
  asset_bootstrapStackVersionSsmParameter :: "string option"
  manifest_file :: string

record IManifestEntry =
  entry_id :: string

text \<open>
  A publisher: its identity and what the constructor at line 900 was given.
\<close>

record AssetPublishing =
  publisher_id :: nat
  publisher_manifest :: AssetManifest
  publisher_env :: Environment
  progress_prefix :: string
  progress_quiet :: bool

record AssetOptions =
  asset_stack :: CloudFormationStackArtifact
  asset_roleArn :: "string option"
  asset_stackName :: "string option"

subsection \<open>Calls that leave the instance\<close>

datatype level = DEBUG | WARNING | ERROR

datatype event =
    Log level string
  | ResolveEnvironment "Environment option"
  | ReplaceEnvPlaceholders "(string \<times> string option) list" Environment
  | ForEnvironment Environment Mode CredentialsOptions
  | ValidateVersion EnvironmentResources "int option" "string option"
  | ReadVersion EnvironmentResources "string option"
  | Lookup ISDK string
  | RollbackStackCall ISDK string "string option" string bool
  | PollEvents ISDK string "string list"
  | ContinueUpdateRollbackCall ISDK string string "string option" "string list"
  | MonitorStart ISDK string "bool option"
  | StabilizeStack ISDK string
  | MonitorStop ISDK string
  | DeployStackCall DeployRequest
  | BuildEntry AssetPublishing IManifestEntry
  | PublishEntry AssetPublishing IManifestEntry
  | IsEntryPublished AssetPublishing IManifestEntry

text \<open>
  The calls that change a stack: the two of the rollback loop (lines 534 and 562) and the
  deployment that \<open>deployStack\<close> delegates (line 470).
\<close>

fun mutating :: "event \<Rightarrow> bool" where
  "mutating (RollbackStackCall c n r t k) = True"
| "mutating (ContinueUpdateRollbackCall c n t r xs) = True"
| "mutating (DeployStackCall request) = True"
| "mutating _ = False"

fun isForEnvironment :: "event \<Rightarrow> bool" where
  "isForEnvironment (ForEnvironment env mode options) = True"
| "isForEnvironment _ = False"

fun isValidateVersion :: "event \<Rightarrow> bool" where
  "isValidateVersion (ValidateVersion resources required parameter) = True"
| "isValidateVersion _ = False"

text \<open>The publisher a call to the asset library acts on.\<close>

fun publisherOf :: "event \<Rightarrow> AssetPublishing option" where
  "publisherOf (BuildEntry publisher entry) = Some publisher"
| "publisherOf (PublishEntry publisher entry) = Some publisher"
| "publisherOf (IsEntryPublished publisher entry) = Some publisher"
| "publisherOf _ = None"

fun isLookup :: "event \<Rightarrow> bool" where
  "isLookup (Lookup c n) = True"
| "isLookup _ = False"

type_synonym history = "event list"

text \<open>
  The collaborators. Each function answers one call from the history of the calls made
  before it; \<open>Inl\<close> is the error the call throws.
\<close>

record world =
  modeText :: "Mode \<Rightarrow> string"
  JSON_stringify :: "AdditionalOptions \<Rightarrow> string"
  resolveEnvironmentOf :: "Environment option \<Rightarrow> history \<Rightarrow> error + Environment"
  replacePlaceholders ::
    "(string \<times> string option) list \<Rightarrow> Environment \<Rightarrow> history
       \<Rightarrow> error + (string \<times> string option) list"
  forEnvironment :: "Environment \<Rightarrow> Mode \<Rightarrow> CredentialsOptions \<Rightarrow> history \<Rightarrow> error + bool"
  currentVersion :: "EnvironmentResources \<Rightarrow> string option \<Rightarrow> history \<Rightarrow> error + int"
  versionMismatchText :: "int \<Rightarrow> int \<Rightarrow> string"
  lookupStack :: "ISDK \<Rightarrow> string \<Rightarrow> history \<Rightarrow> error + CloudFormationStack"
  randomUUID :: "history \<Rightarrow> string"
  cfnRollbackStack :: "ISDK \<Rightarrow> string \<Rightarrow> history \<Rightarrow> error + unit"
  pollResourceErrors :: "ISDK \<Rightarrow> string \<Rightarrow> history \<Rightarrow> error + ResourceEvent list"
  cfnContinueUpdateRollback :: "ISDK \<Rightarrow> string \<Rightarrow> string list \<Rightarrow> history \<Rightarrow> error + unit"
  stabilize :: "ISDK \<Rightarrow> string \<Rightarrow> history \<Rightarrow> error + CloudFormationStack option"
  monitorErrors :: "ISDK \<Rightarrow> string \<Rightarrow> history \<Rightarrow> string list option"
  monitorStop :: "ISDK \<Rightarrow> string \<Rightarrow> history \<Rightarrow> error + unit"
  deployStackDelegate :: "DeployRequest \<Rightarrow> history \<Rightarrow> error + DeployStackResult"
  chalk_bold :: "string \<Rightarrow> string"
  buildEntry :: "AssetPublishing \<Rightarrow> IManifestEntry \<Rightarrow> history \<Rightarrow> error + unit"
  publishEntry :: "AssetPublishing \<Rightarrow> IManifestEntry \<Rightarrow> history \<Rightarrow> error + unit"
  isEntryPublished :: "AssetPublishing \<Rightarrow> IManifestEntry \<Rightarrow> history \<Rightarrow> error + bool"
  hasFailures :: "AssetPublishing \<Rightarrow> history \<Rightarrow> bool"

subsection \<open>The instance\<close>

text \<open>
  \<open>fresh\<close> numbers the objects the instance has obtained or built (clients and
  publishers), so that two of them are the same object exactly when they are equal.
\<close>

record Deployments =
  props_quiet :: "bool option"
  sdkCache :: "string \<rightharpoonup> SdkForEnvironment"
  publisherCache :: "AssetManifest \<rightharpoonup> AssetPublishing"
  fresh :: nat
  trace :: history

type_synonym 'a action = "Deployments \<Rightarrow> (error + 'a) \<times> Deployments"

definition ret :: "'a \<Rightarrow> 'a action" where
  "ret x s = (Inr x, s)"

definition throw :: "error \<Rightarrow> 'a action" where
  "throw e s = (Inl e, s)"

text \<open>\<open>await\<close> then continue: an error ends the method with the state reached.\<close>

definition andThen :: "'a action \<Rightarrow> ('a \<Rightarrow> 'b action) \<Rightarrow> 'b action" where
  "andThen m f s = (case m s of (Inl e, s') \<Rightarrow> (Inl e, s') | (Inr x, s') \<Rightarrow> f x s')"

definition emit :: "event \<Rightarrow> Deployments \<Rightarrow> Deployments" where
  "emit ev s = s\<lparr>trace := trace s @ [ev]\<rparr>"

text \<open>A call to a collaborator: answered from the history before it, then recorded.\<close>

definition call :: "event \<Rightarrow> (history \<Rightarrow> error + 'a) \<Rightarrow> 'a action" where
  "call ev answer s = (answer (trace s), emit ev s)"

definition logging :: "level \<Rightarrow> string \<Rightarrow> unit action" where
  "logging l msg s = (Inr (), emit (Log l msg) s)"

text \<open>Property access on the object \<open>replaceEnvPlaceholders\<close> returns.\<close>

definition property :: "(string \<times> string option) list \<Rightarrow> string \<Rightarrow> string option" where
  "property obj k = (case map_of obj k of Some (Some v) \<Rightarrow> Some v | _ \<Rightarrow> None)"

subsection \<open>Credential cache (lines 867 to 892)\<close>

definition cacheKey :: "world \<Rightarrow> Environment \<Rightarrow> Mode \<Rightarrow> CredentialsOptions \<Rightarrow> string" where
  "cacheKey w env mode options =
     (let cacheKeyElements =
            [account env, region env, modeText w mode,
             orElse (cred_assumeRoleArn options) [],
             orElse (cred_assumeRoleExternalId options) []];
          cacheKeyElements' =
            (case cred_assumeRoleAdditionalOptions options of
               Some additional \<Rightarrow> cacheKeyElements @ [JSON_stringify w additional]
             | None \<Rightarrow> cacheKeyElements)
      in join '':'' cacheKeyElements')"

definition cachedSdkForEnvironment ::
    "world \<Rightarrow> Environment \<Rightarrow> Mode \<Rightarrow> CredentialsOptions \<Rightarrow> SdkForEnvironment action" where
  "cachedSdkForEnvironment w env mode options s =
     (case sdkCache s (cacheKey w env mode options) of
        Some existing \<Rightarrow> (Inr existing, s)
      | None \<Rightarrow>
          (case call (ForEnvironment env mode options) (forEnvironment w env mode options) s of
             (Inl e, s') \<Rightarrow> (Inl e, s')
           | (Inr assumed, s') \<Rightarrow>
               (let r = \<lparr>sdk = fresh s', didAssumeRole = assumed\<rparr>
                in (Inr r,
                    s'\<lparr>sdkCache := (sdkCache s')(cacheKey w env mode options \<mapsto> r),
                       fresh := Suc (fresh s')\<rparr>))))"

subsection \<open>Environment and credentials of a stack (lines 669 to 700)\<close>

definition prepareSdkFor ::
    "world \<Rightarrow> CloudFormationStackArtifact \<Rightarrow> string option \<Rightarrow> Mode
       \<Rightarrow> PreparedSdkForEnvironment action" where
  "prepareSdkFor w stk role mode =
     (case environment stk of
        None \<Rightarrow>
          throw (Error (''The stack '' @ displayName stk @ '' does not have an environment''))
      | Some env \<Rightarrow>
          andThen (call (ResolveEnvironment (Some env)) (resolveEnvironmentOf w (Some env)))
            (\<lambda>resolved.
          andThen
            (let obj = [(''assumeRoleArn'', assumeRoleArn stk),
                        (''cloudFormationRoleArn'',
                           (case role of Some r \<Rightarrow> Some r
                            | None \<Rightarrow> cloudFormationExecutionRoleArn stk))]
             in call (ReplaceEnvPlaceholders obj resolved) (replacePlaceholders w obj resolved))
            (\<lambda>arns.
          andThen
            (cachedSdkForEnvironment w resolved mode
               \<lparr>cred_assumeRoleArn = property arns ''assumeRoleArn'',
                cred_assumeRoleExternalId = assumeRoleExternalId stk,
                cred_assumeRoleAdditionalOptions = assumeRoleAdditionalOptions stk\<rparr>)
            (\<lambda>client.
          ret \<lparr>stackSdk = sdk client,
               resolvedEnvironment = resolved,
               cloudFormationRoleArn = property arns ''cloudFormationRoleArn'',
               envResources = environmentResources_for resolved (sdk client)\<rparr>))))"

subsection \<open>Bootstrap compatibility gate (lines 854 to 865)\<close>

text \<open>
  Modelled from the spec: \<open>EnvironmentResources.validateVersion\<close>, of
  lib/api/environment-resources.ts, is not among the sources. Section 4.3 of the
  specification: with no requirement declared it succeeds; otherwise it reads the current
  version at the given metadata location through the accessor and fails with a
  version-mismatch error if the live version is strictly less than the required one.
  The text of that error is the world's \<open>versionMismatchText required live\<close>.
\<close>

definition validateVersion ::
    "world \<Rightarrow> EnvironmentResources \<Rightarrow> int option \<Rightarrow> string option \<Rightarrow> unit action" where
  "validateVersion w resources expected ssmParameterName =
     (\<lambda>s0.
        (let s = emit (ValidateVersion resources expected ssmParameterName) s0
         in (case expected of
               None \<Rightarrow> ret () s
             | Some required \<Rightarrow>
                 andThen
                   (call (ReadVersion resources ssmParameterName)
                      (currentVersion w resources ssmParameterName))
                   (\<lambda>live.
                      if live < required
                      then throw (Error (versionMismatchText w required live))
                      else ret ()) s)))"

text \<open>\<open>EnvironmentResources.versionFromSsmParameter\<close>: the read alone.\<close>

definition versionFromSsmParameter ::
    "world \<Rightarrow> EnvironmentResources \<Rightarrow> string \<Rightarrow> int action" where
  "versionFromSsmParameter w resources parameterName =
     call (ReadVersion resources (Some parameterName))
       (currentVersion w resources (Some parameterName))"

definition validateBootstrapStackVersion ::
    "world \<Rightarrow> string \<Rightarrow> int option \<Rightarrow> string option \<Rightarrow> EnvironmentResources
       \<Rightarrow> unit action" where
  "validateBootstrapStackVersion w name required parameter resources s =
     (case validateVersion w resources required parameter s of
        (Inl e, s') \<Rightarrow> (Inl (Error (name @ '': '' @ message e)), s')
      | (Inr u, s') \<Rightarrow> (Inr u, s'))"

subsection \<open>Rollback (lines 497 to 614)\<close>

definition BOOTSTRAP_STACK_VERSION_FOR_ROLLBACK :: int where
  "BOOTSTRAP_STACK_VERSION_FOR_ROLLBACK = 23"

text \<open>What one pass through the loop body ends with: a \<open>return\<close> or the \<open>continue\<close>.\<close>

datatype outcome = Return RollbackStackResult | Continue "string list"

definition noProgressError :: error where
  "noProgressError =
     Error (''Rollback did not finish after a large number of iterations; stopping because ''
            @ ''it looks like we'' @ [CHR 0x27] @ ''re not making progress anymore. ''
            @ ''You can retry if rollback was progressing as expected.'')"

definition iterationError :: "string \<Rightarrow> error" where
  "iterationError stackErrorMessage =
     Error (stackErrorMessage
            @ '' (fix problem and retry, or orphan these resources using --orphan or --force)'')"

text \<open>Lines 553 to 555: the resources a forced continuation skips.\<close>

definition failedResourcesOfStack :: "ResourceEvent list \<Rightarrow> string list" where
  "failedResourcesOfStack resourceErrors =
     map (\<lambda>r. orElse (LogicalResourceId r) [])
       (filter (\<lambda>r. \<not> isStackEvent r \<and> length (parentStackLogicalIds r) = 0) resourceErrors)"

text \<open>
  Lines 578 to 599: start the monitor unless quiet, wait for the stack to stabilise and
  stop the monitor. The result is \<open>stackErrorMessage\<close> and \<open>finalStackState\<close>; an error
  thrown by \<open>monitor.stop()\<close> in the \<open>finally\<close> block leaves the method.
\<close>

definition awaitStable ::
    "world \<Rightarrow> RollbackStackOptions \<Rightarrow> ISDK \<Rightarrow> string \<Rightarrow> CloudFormationStack
       \<Rightarrow> (string option \<times> CloudFormationStack) action" where
  "awaitStable w options cfn deployName cloudFormationStack s0 =
     (let monitor = \<not> truthy (quiet options);
          s1 = (if monitor then emit (MonitorStart cfn deployName (ci options)) s0 else s0);
          (waited, s2) = call (StabilizeStack cfn deployName) (stabilize w cfn deployName) s1;
          errors = (if monitor then monitorErrors w cfn deployName (trace s2) else None);
          result =
            (case waited of
               Inr (Some successStack) \<Rightarrow>
                 (let joined = map_option (join '', '') errors
                  in (if truthyString joined then joined else None, successStack))
             | Inr None \<Rightarrow>
                 (Some (suffixWithErrors
                    ''Stack deploy failed (the stack disappeared while we were rolling it back)''
                    errors),
                  cloudFormationStack)
             | Inl e \<Rightarrow> (Some (suffixWithErrors (message e) errors), cloudFormationStack))
      in if monitor
         then andThen (call (MonitorStop cfn deployName) (monitorStop w cfn deployName))
                (\<lambda>_. ret result) s2
         else (Inr result, s2))"

text \<open>Lines 601 to 611: return, go round again, or throw.\<close>

definition conclude ::
    "RollbackStackOptions \<Rightarrow> string option \<Rightarrow> CloudFormationStack \<Rightarrow> string list
       \<Rightarrow> error + outcome" where
  "conclude options stackErrorMessage finalStackState resourcesToSkip =
     (if isRollbackSuccess (stackStatus finalStackState) \<or> \<not> truthyString stackErrorMessage
      then Inr (Return \<lparr>notInRollbackableState = None, success = Some True\<rparr>)
      else if rollbackChoice (stackStatus finalStackState) = CONTINUE_UPDATE_ROLLBACK
              \<and> truthy (force options)
      then Inr (Continue resourcesToSkip)
      else Inl (iterationError (template stackErrorMessage)))"

definition waitForStack ::
    "world \<Rightarrow> RollbackStackOptions \<Rightarrow> ISDK \<Rightarrow> string \<Rightarrow> CloudFormationStack \<Rightarrow> string list
       \<Rightarrow> outcome action" where
  "waitForStack w options cfn deployName cloudFormationStack resourcesToSkip =
     andThen (awaitStable w options cfn deployName cloudFormationStack)
       (\<lambda>(stackErrorMessage, finalStackState) s.
          (conclude options stackErrorMessage finalStackState resourcesToSkip, s))"

text \<open>Lines 525 to 576, then the wait: one pass through the loop body.\<close>

definition rollbackIteration ::
    "world \<Rightarrow> RollbackStackOptions \<Rightarrow> ISDK \<Rightarrow> string \<Rightarrow> string option \<Rightarrow> string list
       \<Rightarrow> outcome action" where
  "rollbackIteration w options cfn deployName role resourcesToSkip =
     andThen (call (Lookup cfn deployName) (lookupStack w cfn deployName))
       (\<lambda>cloudFormationStack.
          case rollbackChoice (stackStatus cloudFormationStack) of
            NONE \<Rightarrow>
              andThen
                (logging WARNING
                   (''Stack '' @ deployName @ '' does not need a rollback: ''
                    @ statusText (stackStatus cloudFormationStack)))
                (\<lambda>_. ret (Return \<lparr>notInRollbackableState = Some True, success = None\<rparr>))
          | START_ROLLBACK \<Rightarrow>
              andThen (logging DEBUG (''Initiating rollback of stack '' @ deployName))
                (\<lambda>_ s.
                   andThen
                     (call (RollbackStackCall cfn deployName role (randomUUID w (trace s)) True)
                        (cfnRollbackStack w cfn deployName))
                     (\<lambda>_. waitForStack w options cfn deployName cloudFormationStack
                             resourcesToSkip) s)
          | CONTINUE_UPDATE_ROLLBACK \<Rightarrow>
              andThen
                (if truthy (force options)
                 then andThen
                        (call (PollEvents cfn deployName
                                 [''ROLLBACK_IN_PROGRESS'', ''UPDATE_ROLLBACK_IN_PROGRESS''])
                           (pollResourceErrors w cfn deployName))
                        (\<lambda>resourceErrors. ret (failedResourcesOfStack resourceErrors))
                 else ret resourcesToSkip)
                (\<lambda>resourcesToSkip'.
                   andThen
                     (logging WARNING
                        (''Continuing rollback of stack '' @ deployName
                         @ (if length resourcesToSkip' > 0
                            then '' (orphaning: '' @ join '', '' resourcesToSkip' @ '')''
                            else [])))
                     (\<lambda>_ s.
                        andThen
                          (call (ContinueUpdateRollbackCall cfn deployName
                                   (randomUUID w (trace s)) role resourcesToSkip')
                             (cfnContinueUpdateRollback w cfn deployName resourcesToSkip'))
                          (\<lambda>_. waitForStack w options cfn deployName cloudFormationStack
                                  resourcesToSkip') s))
          | ROLLBACK_FAILED \<Rightarrow>
              andThen
                (logging WARNING
                   (''Stack '' @ deployName
                    @ '' failed creation and rollback. This state cannot be rolled back. ''
                    @ ''You can recreate this stack by running '' @ [CHR 0x27] @ ''cdk deploy''
                    @ [CHR 0x27] @ ''.''))
                (\<lambda>_. ret (Return \<lparr>notInRollbackableState = Some True, success = None\<rparr>))
          | UNEXPECTED rendering \<Rightarrow>
              throw (Error (''Unexpected rollback choice: '' @ rendering)))"

text \<open>
  Lines 523, 524 and 613: \<open>let maxLoops = 10; while (maxLoops--) { ... } throw ...\<close>.
  The argument is the value of \<open>maxLoops\<close> the loop test reads.
\<close>

fun rollbackLoop ::
    "world \<Rightarrow> RollbackStackOptions \<Rightarrow> ISDK \<Rightarrow> string \<Rightarrow> string option \<Rightarrow> nat \<Rightarrow> string list
       \<Rightarrow> RollbackStackResult action" where
  "rollbackLoop w options cfn deployName role 0 resourcesToSkip s = (Inl noProgressError, s)"
| "rollbackLoop w options cfn deployName role (Suc maxLoops) resourcesToSkip s =
     (case rollbackIteration w options cfn deployName role resourcesToSkip s of
        (Inl e, s') \<Rightarrow> (Inl e, s')
      | (Inr (Return result), s') \<Rightarrow> (Inr result, s')
      | (Inr (Continue resourcesToSkip'), s') \<Rightarrow>
          rollbackLoop w options cfn deployName role maxLoops resourcesToSkip' s')"

text \<open>Lines 510 to 517: the bootstrap check of a rollback.\<close>

definition rollbackGate ::
    "world \<Rightarrow> RollbackStackOptions \<Rightarrow> PreparedSdkForEnvironment \<Rightarrow> unit action" where
  "rollbackGate w options prepared =
     (if orElse (opt_validateBootstrapStackVersion options) True
      then validateBootstrapStackVersion w (stackName (stack options))
             (Some BOOTSTRAP_STACK_VERSION_FOR_ROLLBACK)
             (bootstrapStackVersionSsmParameter (stack options))
             (envResources prepared)
      else ret ())"

definition rollbackStack :: "world \<Rightarrow> RollbackStackOptions \<Rightarrow> RollbackStackResult action" where
  "rollbackStack w options =
     (let resourcesToSkip = orElse (orphanLogicalIds options) []
      in if truthy (force options) \<and> length resourcesToSkip > 0
         then throw (Error ''Cannot combine --force with --orphan'')
         else
           andThen (prepareSdkFor w (stack options) (roleArn options) ForWriting)
             (\<lambda>prepared.
           andThen (rollbackGate w options prepared)
             (\<lambda>_.
           rollbackLoop w options (stackSdk prepared) (stackName (stack options))
             (cloudFormationRoleArn prepared) 10 resourcesToSkip)))"

subsection \<open>Deployment (lines 443 to 495)\<close>

definition deployStack :: "world \<Rightarrow> DeployStackOptions \<Rightarrow> DeployStackResult action" where
  "deployStack w options =
     andThen
       (if truthyString (changeSetName options) \<or> execute options \<noteq> None
        then (if deploymentMethod options \<noteq> None
              then throw (Error (''You cannot supply both '' @ [CHR 0x27] @ ''deploymentMethod''
                                 @ [CHR 0x27] @ '' and '' @ [CHR 0x27] @ ''changeSetName/execute''
                                 @ [CHR 0x27] @ ''. Supply one or the other.''))
              else ret (Some (ChangeSet (execute options) (changeSetName options))))
        else ret (deploymentMethod options))
       (\<lambda>method.
     andThen (prepareSdkFor w (deploy_stack options) (deploy_roleArn options) ForWriting)
       (\<lambda>prepared.
     andThen
       (validateBootstrapStackVersion w (stackName (deploy_stack options))
          (requiresBootstrapStackVersion (deploy_stack options))
          (bootstrapStackVersionSsmParameter (deploy_stack options))
          (envResources prepared))
       (\<lambda>_.
          (let request =
                 \<lparr>request_stack = deploy_stack options,
                  request_resolvedEnvironment = resolvedEnvironment prepared,
                  request_sdk = stackSdk prepared,
                  request_roleArn = cloudFormationRoleArn prepared,
                  request_envResources = envResources prepared,
                  request_deploymentMethod = method,
                  request_otherOptions = otherOptions options\<rparr>
           in call (DeployStackCall request) (deployStackDelegate w request)))))"

subsection \<open>Lookup role (lines 720 to 769)\<close>

definition lookupRoleVersionError :: "int \<Rightarrow> int \<Rightarrow> error" where
  "lookupRoleVersionError required version =
     Error (''Bootstrap stack version '' @ [CHR 0x27] @ showInt required @ [CHR 0x27]
            @ '' is required, found version '' @ [CHR 0x27] @ showInt version @ [CHR 0x27]
            @ ''. To get rid of this error, please upgrade to bootstrap version >= ''
            @ showInt required)"

definition notAssumedWarning :: "CloudFormationStackArtifact \<Rightarrow> string" where
  "notAssumedWarning stk =
     ''Lookup role ''
     @ (if lookupRole stk \<noteq> None then ''exists but'' else ''does not exist, hence'')
     @ '' was not assumed. Proceeding with default credentials.''"

text \<open>Lines 734 to 753: the body of the \<open>try\<close>.\<close>

definition assumeLookupRole ::
    "world \<Rightarrow> CloudFormationStackArtifact \<Rightarrow> Environment \<Rightarrow> (string \<times> string option) list
       \<Rightarrow> PreparedSdkWithLookupRoleForEnvironment action" where
  "assumeLookupRole w stk resolved arns =
     andThen
       (cachedSdkForEnvironment w resolved ForReading
          \<lparr>cred_assumeRoleArn = property arns ''lookupRoleArn'',
           cred_assumeRoleExternalId = Option.bind (lookupRole stk) role_assumeRoleExternalId,
           cred_assumeRoleAdditionalOptions =
             Option.bind (lookupRole stk) role_assumeRoleAdditionalOptions\<rparr>)
       (\<lambda>client.
          (let resources = environmentResources_for resolved (sdk client);
               parameter = Option.bind (lookupRole stk) role_bootstrapStackVersionSsmParameter;
               required = Option.bind (lookupRole stk) role_requiresBootstrapStackVersion
           in andThen
                (if didAssumeRole client \<and> truthyString parameter \<and> truthyNumber required
                 then andThen (versionFromSsmParameter w resources (orElse parameter []))
                        (\<lambda>version.
                           if version < orElse required 0
                           then throw (lookupRoleVersionError (orElse required 0) version)
                           else ret ())
                 else if \<not> didAssumeRole client
                 then logging WARNING (notAssumedWarning stk)
                 else ret ())
                (\<lambda>_. ret \<lparr>lookup_sdk = sdk client,
                           lookup_didAssumeRole = didAssumeRole client,
                           lookup_resolvedEnvironment = resolved,
                           lookup_envResources = resources\<rparr>)))"

definition prepareSdkWithLookupRoleFor ::
    "world \<Rightarrow> CloudFormationStackArtifact
       \<Rightarrow> PreparedSdkWithLookupRoleForEnvironment action" where
  "prepareSdkWithLookupRoleFor w stk =
     andThen
       (call (ResolveEnvironment (environment stk)) (resolveEnvironmentOf w (environment stk)))
       (\<lambda>resolved.
     andThen
       (let obj = [(''lookupRoleArn'', map_option arn (lookupRole stk))]
        in call (ReplaceEnvPlaceholders obj resolved) (replacePlaceholders w obj resolved))
       (\<lambda>arns s.
          (let warningMessage =
                 ''Could not assume '' @ template (property arns ''lookupRoleArn'')
                 @ '', proceeding anyway.''
           in (case assumeLookupRole w stk resolved arns s of
                 (Inr prepared, s') \<Rightarrow> (Inr prepared, s')
               | (Inl e, s') \<Rightarrow>
                   andThen (logging DEBUG (message e))
                     (\<lambda>_.
                   andThen
                     (if lookupRole stk \<noteq> None then logging WARNING warningMessage else ret ())
                     (\<lambda>_.
                   andThen
                     (if string_includes (message e) ''Bootstrap stack version''
                      then logging ERROR (message e)
                      else ret ())
                     (\<lambda>_. throw e))) s'))))"

subsection \<open>Asset publishers (lines 805 to 847 and 894 to 906)\<close>

definition cachedPublisher ::
    "world \<Rightarrow> AssetManifest \<Rightarrow> Environment \<Rightarrow> string option \<Rightarrow> Deployments
       \<Rightarrow> AssetPublishing \<times> Deployments" where
  "cachedPublisher w assetManifest env name s =
     (case publisherCache s assetManifest of
        Some existing \<Rightarrow> (existing, s)
      | None \<Rightarrow>
          (let prefix = (if truthyString name then chalk_bold w (orElse name []) @ '': '' else []);
               publisher =
                 \<lparr>publisher_id = fresh s,
                  publisher_manifest = assetManifest,
                  publisher_env = env,
                  progress_prefix = prefix,
                  progress_quiet = orElse (props_quiet s) False\<rparr>
           in (publisher,
               s\<lparr>publisherCache := (publisherCache s)(assetManifest \<mapsto> publisher),
                 fresh := Suc (fresh s)\<rparr>)))"

definition buildSingleAsset ::
    "world \<Rightarrow> AssetManifestArtifact \<Rightarrow> AssetManifest \<Rightarrow> IManifestEntry \<Rightarrow> AssetOptions
       \<Rightarrow> unit action" where
  "buildSingleAsset w assetArtifact assetManifest asset options =
     andThen (prepareSdkFor w (asset_stack options) (asset_roleArn options) ForWriting)
       (\<lambda>prepared.
     andThen
       (validateBootstrapStackVersion w (stackName (asset_stack options))
          (asset_requiresBootstrapStackVersion assetArtifact)
          (asset_bootstrapStackVersionSsmParameter assetArtifact)
          (envResources prepared))
       (\<lambda>_ s.
          (let (publisher, s1) =
                 cachedPublisher w assetManifest (resolvedEnvironment prepared)
                   (asset_stackName options) s
           in andThen (call (BuildEntry publisher asset) (buildEntry w publisher asset))
                (\<lambda>_ s2.
                   if hasFailures w publisher (trace s2)
                   then throw (Error (''Failed to build asset '' @ entry_id asset)) s2
                   else ret () s2) s1)))"

definition publishSingleAsset ::
    "world \<Rightarrow> AssetManifest \<Rightarrow> IManifestEntry \<Rightarrow> AssetOptions \<Rightarrow> unit action" where
  "publishSingleAsset w assetManifest asset options =
     andThen (prepareSdkFor w (asset_stack options) (asset_roleArn options) ForWriting)
       (\<lambda>prepared s.
          (let (publisher, s1) =
                 cachedPublisher w assetManifest (resolvedEnvironment prepared)
                   (asset_stackName options) s
           in andThen (call (PublishEntry publisher asset) (publishEntry w publisher asset))
                (\<lambda>_ s2.
                   if hasFailures w publisher (trace s2)
                   then throw (Error (''Failed to publish asset '' @ entry_id asset)) s2
                   else ret () s2) s1))"

definition isSingleAssetPublished ::
    "world \<Rightarrow> AssetManifest \<Rightarrow> IManifestEntry \<Rightarrow> AssetOptions \<Rightarrow> bool action" where
  "isSingleAssetPublished w assetManifest asset options =
     andThen (prepareSdkFor w (asset_stack options) (asset_roleArn options) ForWriting)
       (\<lambda>prepared s.
          (let (publisher, s1) =
                 cachedPublisher w assetManifest (resolvedEnvironment prepared)
                   (asset_stackName options) s
           in call (IsEntryPublished publisher asset) (isEntryPublished w publisher asset) s1))"

subsection \<open>A run of one instance\<close>

text \<open>
  The constructor (line 393) and the public methods above as the steps of a run; a step
  that throws leaves the state it reached, and the run goes on, as a caller that catches
  the error would.
\<close>

definition newDeployments :: "bool option \<Rightarrow> Deployments" where
  "newDeployments q =
     \<lparr>props_quiet = q, sdkCache = Map.empty, publisherCache = Map.empty, fresh = 0, trace = []\<rparr>"

datatype operation =
    DeployStack DeployStackOptions
  | RollbackStack RollbackStackOptions
  | PrepareSdkWithLookupRoleFor CloudFormationStackArtifact
  | BuildSingleAsset AssetManifestArtifact AssetManifest IManifestEntry AssetOptions
  | PublishSingleAsset AssetManifest IManifestEntry AssetOptions
  | IsSingleAssetPublished AssetManifest IManifestEntry AssetOptions

fun step :: "world \<Rightarrow> operation \<Rightarrow> Deployments \<Rightarrow> Deployments" where
  "step w (DeployStack options) s = snd (deployStack w options s)"
| "step w (RollbackStack options) s = snd (rollbackStack w options s)"
| "step w (PrepareSdkWithLookupRoleFor stk) s = snd (prepareSdkWithLookupRoleFor w stk s)"
| "step w (BuildSingleAsset artifact assetManifest asset options) s =
     snd (buildSingleAsset w artifact assetManifest asset options s)"
| "step w (PublishSingleAsset assetManifest asset options) s =
     snd (publishSingleAsset w assetManifest asset options s)"
| "step w (IsSingleAssetPublished assetManifest asset options) s =
     snd (isSingleAssetPublished w assetManifest asset options s)"

fun run :: "world \<Rightarrow> operation list \<Rightarrow> Deployments \<Rightarrow> Deployments" where
  "run w [] s = s"
| "run w (operation # operations) s = run w operations (step w operation s)"

subsection \<open>What a method leaves behind\<close>

text \<open>
  \<open>emits K m\<close>: whatever the state, the method \<open>m\<close> only appends to the trace, and every
  call it appends is of kind \<open>K\<close>. \<open>keeps m\<close>: it removes or replaces no entry of the
  two caches.
\<close>

definition emits :: "(event \<Rightarrow> bool) \<Rightarrow> 'a action \<Rightarrow> bool" where
  "emits K m = (\<forall>s. \<exists>new. trace (snd (m s)) = trace s @ new \<and> (\<forall>e\<in>set new. K e))"

definition keeps :: "'a action \<Rightarrow> bool" where
  "keeps m =
     (\<forall>s. sdkCache s \<subseteq>\<^sub>m sdkCache (snd (m s))
          \<and> publisherCache s \<subseteq>\<^sub>m publisherCache (snd (m s)))"

text \<open>
  Kinds of calls: those that resolve credentials, those that read the bootstrap version,
  and those a pass through the rollback loop makes after its lookup.
\<close>

fun isCredentialCall :: "event \<Rightarrow> bool" where
  "isCredentialCall (ResolveEnvironment env) = True"
| "isCredentialCall (ReplaceEnvPlaceholders obj env) = True"
| "isCredentialCall (ForEnvironment env mode options) = True"
| "isCredentialCall _ = False"

fun isVersionCall :: "event \<Rightarrow> bool" where
  "isVersionCall (ValidateVersion resources required parameter) = True"
| "isVersionCall (ReadVersion resources parameter) = True"
| "isVersionCall _ = False"

fun isRollbackCall :: "event \<Rightarrow> bool" where
  "isRollbackCall (Log l msg) = True"
| "isRollbackCall (RollbackStackCall cfn name role token retain) = True"
| "isRollbackCall (PollEvents cfn name statuses) = True"
| "isRollbackCall (ContinueUpdateRollbackCall cfn name token role skipped) = True"
| "isRollbackCall (MonitorStart cfn name onCi) = True"
| "isRollbackCall (StabilizeStack cfn name) = True"
| "isRollbackCall (MonitorStop cfn name) = True"
| "isRollbackCall _ = False"

fun isLog :: "event \<Rightarrow> bool" where
  "isLog (Log l msg) = True"
| "isLog _ = False"

text \<open>
  \<open>actsOn m T\<close>: every call to the asset library that \<open>T\<close> adds to the trace is made on
  the publisher that the cache holds for the manifest \<open>m\<close> when \<open>T\<close> ends.
\<close>

definition actsOn :: "AssetManifest \<Rightarrow> 'a action \<Rightarrow> bool" where
  "actsOn m T =
     (\<forall>s. \<forall>e\<in>set (drop (length (trace s)) (trace (snd (T s)))). \<forall>p.
        publisherOf e = Some p \<longrightarrow> publisherCache (snd (T s)) m = Some p)"

text \<open>
  \<open>goesRound \<dots> n\<close>: each of the next \<open>n\<close> passes through the loop body ends in the
  \<open>continue\<close> of line 608.
\<close>

fun goesRound ::
    "world \<Rightarrow> RollbackStackOptions \<Rightarrow> ISDK \<Rightarrow> string \<Rightarrow> string option \<Rightarrow> nat \<Rightarrow> string list
       \<Rightarrow> Deployments \<Rightarrow> bool" where
  "goesRound w options cfn deployName role 0 resourcesToSkip s = True"
| "goesRound w options cfn deployName role (Suc n) resourcesToSkip s =
     (case rollbackIteration w options cfn deployName role resourcesToSkip s of
        (Inr (Continue resourcesToSkip'), s') \<Rightarrow>
          goesRound w options cfn deployName role n resourcesToSkip' s'
      | _ \<Rightarrow> False)"

text \<open>The calls a method has added to the trace of \<open>s\<close> when it ends in \<open>s'\<close>.\<close>

definition added :: "Deployments \<Rightarrow> Deployments \<Rightarrow> event list" where
  "added s s' = drop (length (trace s)) (trace s')"

text \<open>The number of passes through the rollback loop a trace shows: one lookup each.\<close>

definition lookups :: "Deployments \<Rightarrow> nat" where
  "lookups s = length (filter isLookup (trace s))"

text \<open>The manifest an asset operation is invoked against.\<close>

fun manifestOf :: "operation \<Rightarrow> AssetManifest option" where
  "manifestOf (BuildSingleAsset artifact assetManifest asset options) = Some assetManifest"
| "manifestOf (PublishSingleAsset assetManifest asset options) = Some assetManifest"
| "manifestOf (IsSingleAssetPublished assetManifest asset options) = Some assetManifest"
| "manifestOf _ = None"

section \<open>Example runs\<close>

text \<open>
  A stack in one environment, and a world in which every collaborator succeeds: the
  environment reports the bootstrap version \<open>live\<close>, a stack lookup is answered by
  \<open>looked\<close>, the wait for a stable stack by \<open>waited\<close>, and a role is assumed exactly when
  \<open>assumed\<close> holds.
\<close>

definition exampleEnvironment :: Environment where
  "exampleEnvironment =
     \<lparr>account = ''111111111111'', region = ''eu-west-1'',
      envName = ''aws://111111111111/eu-west-1''\<rparr>"

definition exampleStack :: "int option \<Rightarrow> CloudFormationStackArtifact" where
  "exampleStack required =
     \<lparr>stackName = ''Service'',
      displayName = ''Service'',
      environment = Some exampleEnvironment,
      assumeRoleArn = Some ''arn:aws:iam::111111111111:role/deploy'',
      assumeRoleExternalId = None,
      assumeRoleAdditionalOptions = None,
      cloudFormationExecutionRoleArn = Some ''arn:aws:iam::111111111111:role/exec'',
      requiresBootstrapStackVersion = required,
      bootstrapStackVersionSsmParameter = Some ''/cdk-bootstrap/version'',
      lookupRole =
        Some \<lparr>arn = ''arn:aws:iam::111111111111:role/lookup'',
              role_assumeRoleExternalId = None,
              role_requiresBootstrapStackVersion = Some 8,
              role_bootstrapStackVersionSsmParameter = Some ''/cdk-bootstrap/version'',
              role_assumeRoleAdditionalOptions = None\<rparr>\<rparr>"

definition exampleOptions :: "int option \<Rightarrow> bool option \<Rightarrow> RollbackStackOptions" where
  "exampleOptions required forced =
     \<lparr>stack = exampleStack required,
      roleArn = None,
      quiet = None,
      ci = None,
      force = forced,
      orphanLogicalIds = None,
      opt_validateBootstrapStackVersion = None\<rparr>"

definition stackIn :: "RollbackChoice \<Rightarrow> bool \<Rightarrow> string \<Rightarrow> CloudFormationStack" where
  "stackIn choice succeeded text =
     \<lparr>stackStatus =
        \<lparr>rollbackChoice = choice, isRollbackSuccess = succeeded, statusText = text\<rparr>\<rparr>"

definition exampleWorld ::
    "int \<Rightarrow> bool \<Rightarrow> (error + CloudFormationStack) \<Rightarrow> (error + CloudFormationStack option)
       \<Rightarrow> world" where
  "exampleWorld live assumed looked waited =
     \<lparr>modeText = (\<lambda>mode. case mode of ForReading \<Rightarrow> ''0'' | ForWriting \<Rightarrow> ''1''),
      JSON_stringify = (\<lambda>additional. ''{}''),
      resolveEnvironmentOf =
        (\<lambda>env h. case env of None \<Rightarrow> Inl (Error ''no environment'') | Some e \<Rightarrow> Inr e),
      replacePlaceholders = (\<lambda>obj env h. Inr obj),
      forEnvironment = (\<lambda>env mode options h. Inr assumed),
      currentVersion = (\<lambda>resources parameter h. Inr live),
      versionMismatchText = (\<lambda>required found. ''bootstrap version too low''),
      lookupStack = (\<lambda>cfn name h. looked),
      randomUUID = (\<lambda>h. ''token-'' @ showNat (length h)),
      cfnRollbackStack = (\<lambda>cfn name h. Inr ()),
      pollResourceErrors =
        (\<lambda>cfn name h.
           Inr [\<lparr>isStackEvent = False, parentStackLogicalIds = [],
                 LogicalResourceId = Some ''Bucket''\<rparr>,
                \<lparr>isStackEvent = True, parentStackLogicalIds = [],
                 LogicalResourceId = Some ''Service''\<rparr>,
                \<lparr>isStackEvent = False, parentStackLogicalIds = [''Nested''],
                 LogicalResourceId = Some ''Queue''\<rparr>]),
      cfnContinueUpdateRollback = (\<lambda>cfn name skipped h. Inr ()),
      stabilize = (\<lambda>cfn name h. waited),
      monitorErrors = (\<lambda>cfn name h. Some []),
      monitorStop = (\<lambda>cfn name h. Inr ()),
      deployStackDelegate = (\<lambda>request h. Inr (DeployStackResult ''deployed'')),
      chalk_bold = (\<lambda>text. text),
      buildEntry = (\<lambda>publisher entry h. Inr ()),
      publishEntry = (\<lambda>publisher entry h. Inr ()),
      isEntryPublished = (\<lambda>publisher entry h. Inr False),
      hasFailures = (\<lambda>publisher h. False)\<rparr>"

section \<open>Properties\<close>

subsection \<open>Sequencing\<close>

lemma andThen_Inr: "m s = (Inr x, s') \<Longrightarrow> andThen m f s = f x s'"
  by (simp add: andThen_def)

lemma andThen_Inl: "m s = (Inl e, s') \<Longrightarrow> andThen m f s = (Inl e, s')"
  by (simp add: andThen_def)

lemma trace_emit [simp]: "trace (emit ev s) = trace s @ [ev]"
  by (simp add: emit_def)

lemma caches_emit [simp]:
  "sdkCache (emit ev s) = sdkCache s"
  "publisherCache (emit ev s) = publisherCache s"
  "fresh (emit ev s) = fresh s"
  "props_quiet (emit ev s) = props_quiet s"
  by (simp_all add: emit_def)

lemma call_eq [simp]: "call ev answer s = (answer (trace s), emit ev s)"
  by (simp add: call_def)

lemma logging_eq [simp]: "logging l msg s = (Inr (), emit (Log l msg) s)"
  by (simp add: logging_def)

lemma ret_eq [simp]: "ret x s = (Inr x, s)"
  by (simp add: ret_def)

lemma throw_eq [simp]: "throw e s = (Inl e, s)"
  by (simp add: throw_def)

subsection \<open>Rules for \<open>emits\<close> and \<open>keeps\<close>\<close>

lemma emitsI:
  assumes "\<And>s. \<exists>new. trace (snd (m s)) = trace s @ new \<and> (\<forall>e\<in>set new. K e)"
  shows "emits K m"
  using assms by (simp add: emits_def)

lemma emitsD:
  assumes "emits K m"
  obtains new where "trace (snd (m s)) = trace s @ new" and "\<forall>e\<in>set new. K e"
  using assms unfolding emits_def by blast

lemma emits_mono: "emits K m \<Longrightarrow> (\<And>e. K e \<Longrightarrow> K' e) \<Longrightarrow> emits K' m"
  unfolding emits_def by blast

lemma emits_ret: "emits K (ret x)"
  by (simp add: emits_def)

lemma emits_throw: "emits K (throw e)"
  by (simp add: emits_def)

lemma emits_call: "K ev \<Longrightarrow> emits K (call ev answer)"
  by (simp add: emits_def)

lemma emits_logging: "K (Log l msg) \<Longrightarrow> emits K (logging l msg)"
  by (simp add: emits_def)

lemma emits_andThen:
  assumes "emits K m" and "\<And>x. emits K (f x)"
  shows "emits K (andThen m f)"
proof (rule emitsI)
  fix s
  obtain new where new: "trace (snd (m s)) = trace s @ new" "\<forall>e\<in>set new. K e"
    using assms(1) by (rule emitsD)
  show "\<exists>new. trace (snd (andThen m f s)) = trace s @ new \<and> (\<forall>e\<in>set new. K e)"
  proof (cases "m s")
    case (Pair r s')
    show ?thesis
    proof (cases r)
      case (Inl e)
      with Pair new show ?thesis by (auto simp: andThen_def)
    next
      case (Inr x)
      obtain more where more: "trace (snd (f x s')) = trace s' @ more" "\<forall>e\<in>set more. K e"
        using assms(2) by (rule emitsD)
      from Pair Inr new more have "trace (snd (andThen m f s)) = trace s @ (new @ more)"
        by (simp add: andThen_def)
      moreover from new more have "\<forall>e\<in>set (new @ more). K e" by auto
      ultimately show ?thesis by blast
    qed
  qed
qed

lemma emits_state:
  assumes "\<And>t. emits K (m t)"
  shows "emits K (\<lambda>s. m s s)"
  using assms unfolding emits_def by blast

lemma emits_if: "emits K a \<Longrightarrow> emits K b \<Longrightarrow> emits K (if c then a else b)"
  by simp

lemma emits_filter:
  assumes "emits K m" and "\<And>e. K e \<Longrightarrow> \<not> P e"
  shows "filter P (trace (snd (m s))) = filter P (trace s)"
proof -
  obtain new where new: "trace (snd (m s)) = trace s @ new" "\<forall>e\<in>set new. K e"
    using assms(1) by (rule emitsD)
  from new(2) assms(2) have "filter P new = []" by (auto simp: filter_empty_conv)
  with new(1) show ?thesis by simp
qed

lemma emits_added:
  assumes "emits K m"
  shows "trace (snd (m s)) = trace s @ added s (snd (m s))" and "\<forall>e\<in>set (added s (snd (m s))). K e"
proof -
  obtain new where new: "trace (snd (m s)) = trace s @ new" "\<forall>e\<in>set new. K e"
    using assms by (rule emitsD)
  then have "added s (snd (m s)) = new" by (simp add: added_def)
  with new show "trace (snd (m s)) = trace s @ added s (snd (m s))"
    and "\<forall>e\<in>set (added s (snd (m s))). K e" by simp_all
qed

lemma keepsI:
  assumes "\<And>s. sdkCache s \<subseteq>\<^sub>m sdkCache (snd (m s))"
    and "\<And>s. publisherCache s \<subseteq>\<^sub>m publisherCache (snd (m s))"
  shows "keeps m"
  using assms by (simp add: keeps_def)

lemma keeps_sdkCache: "keeps m \<Longrightarrow> sdkCache s \<subseteq>\<^sub>m sdkCache (snd (m s))"
  by (simp add: keeps_def)

lemma keeps_publisherCache: "keeps m \<Longrightarrow> publisherCache s \<subseteq>\<^sub>m publisherCache (snd (m s))"
  by (simp add: keeps_def)

lemma keeps_ret: "keeps (ret x)"
  by (simp add: keeps_def)

lemma keeps_throw: "keeps (throw e)"
  by (simp add: keeps_def)

lemma keeps_call: "keeps (call ev answer)"
  by (simp add: keeps_def)

lemma keeps_logging: "keeps (logging l msg)"
  by (simp add: keeps_def)

lemma keeps_andThen:
  assumes "keeps m" and "\<And>x. keeps (f x)"
  shows "keeps (andThen m f)"
proof (rule keepsI)
  fix s
  show "sdkCache s \<subseteq>\<^sub>m sdkCache (snd (andThen m f s))"
  proof (cases "m s")
    case (Pair r s')
    then have 1: "sdkCache s \<subseteq>\<^sub>m sdkCache s'"
      using keeps_sdkCache [OF assms(1), of s] by simp
    show ?thesis
    proof (cases r)
      case (Inl e)
      with Pair 1 show ?thesis by (simp add: andThen_def)
    next
      case (Inr x)
      have "sdkCache s' \<subseteq>\<^sub>m sdkCache (snd (f x s'))"
        using keeps_sdkCache [OF assms(2)] .
      with 1 Pair Inr show ?thesis
        by (auto simp: andThen_def intro: map_le_trans)
    qed
  qed
next
  fix s
  show "publisherCache s \<subseteq>\<^sub>m publisherCache (snd (andThen m f s))"
  proof (cases "m s")
    case (Pair r s')
    then have 1: "publisherCache s \<subseteq>\<^sub>m publisherCache s'"
      using keeps_publisherCache [OF assms(1), of s] by simp
    show ?thesis
    proof (cases r)
      case (Inl e)
      with Pair 1 show ?thesis by (simp add: andThen_def)
    next
      case (Inr x)
      have "publisherCache s' \<subseteq>\<^sub>m publisherCache (snd (f x s'))"
        using keeps_publisherCache [OF assms(2)] .
      with 1 Pair Inr show ?thesis
        by (auto simp: andThen_def intro: map_le_trans)
    qed
  qed
qed

lemma keeps_state:
  assumes "\<And>t. keeps (m t)"
  shows "keeps (\<lambda>s. m s s)"
  using assms unfolding keeps_def by blast

lemma keeps_if: "keeps a \<Longrightarrow> keeps b \<Longrightarrow> keeps (if c then a else b)"
  by simp

subsection \<open>What each method leaves behind\<close>

lemma emits_cachedSdkForEnvironment:
  "emits isCredentialCall (cachedSdkForEnvironment w env mode options)"
  by (rule emitsI) (auto simp: cachedSdkForEnvironment_def Let_def split: option.splits sum.splits)

lemma keeps_cachedSdkForEnvironment:
  "keeps (cachedSdkForEnvironment w env mode options)"
  by (rule keepsI) (auto simp: cachedSdkForEnvironment_def Let_def map_le_def split: option.splits sum.splits)

lemma emits_prepareSdkFor: "emits isCredentialCall (prepareSdkFor w stk role mode)"
  unfolding prepareSdkFor_def Let_def
  by (auto intro!: emits_andThen emits_call emits_ret emits_throw emits_cachedSdkForEnvironment
      split: option.splits)

lemma keeps_prepareSdkFor: "keeps (prepareSdkFor w stk role mode)"
  unfolding prepareSdkFor_def Let_def
  by (auto intro!: keeps_andThen keeps_call keeps_ret keeps_throw keeps_cachedSdkForEnvironment
      split: option.splits)

lemma emits_validateVersion: "emits isVersionCall (validateVersion w resources expected parameter)"
  by (rule emitsI) (auto simp: validateVersion_def Let_def andThen_def split: option.splits sum.splits)

lemma keeps_validateVersion: "keeps (validateVersion w resources expected parameter)"
  by (rule keepsI) (auto simp: validateVersion_def Let_def andThen_def split: option.splits sum.splits)

lemma emits_validateBootstrapStackVersion:
  "emits isVersionCall (validateBootstrapStackVersion w name required parameter resources)"
proof (rule emitsI)
  fix s
  have "snd (validateBootstrapStackVersion w name required parameter resources s)
        = snd (validateVersion w resources required parameter s)"
    by (simp add: validateBootstrapStackVersion_def split: prod.splits sum.splits)
  then show "\<exists>new. trace (snd (validateBootstrapStackVersion w name required parameter resources s))
                = trace s @ new \<and> (\<forall>e\<in>set new. isVersionCall e)"
    using emits_validateVersion [of w resources required parameter] by (simp add: emits_def)
qed

lemma keeps_validateBootstrapStackVersion:
  "keeps (validateBootstrapStackVersion w name required parameter resources)"
proof -
  have "snd (validateBootstrapStackVersion w name required parameter resources s)
        = snd (validateVersion w resources required parameter s)" for s
    by (simp add: validateBootstrapStackVersion_def split: prod.splits sum.splits)
  then show ?thesis
    using keeps_validateVersion [of w resources required parameter] by (simp add: keeps_def)
qed

lemma emits_rollbackGate: "emits isVersionCall (rollbackGate w options prepared)"
  by (simp add: rollbackGate_def emits_validateBootstrapStackVersion emits_ret)

lemma keeps_rollbackGate: "keeps (rollbackGate w options prepared)"
  by (simp add: rollbackGate_def keeps_validateBootstrapStackVersion keeps_ret)

lemma emits_awaitStable:
  "emits isRollbackCall (awaitStable w options cfn name looked)"
  by (rule emitsI) (auto simp: awaitStable_def Let_def andThen_def split: sum.splits)

lemma keeps_awaitStable: "keeps (awaitStable w options cfn name looked)"
  by (rule keepsI) (auto simp: awaitStable_def Let_def andThen_def split: sum.splits)

lemma emits_waitForStack:
  "emits isRollbackCall (waitForStack w options cfn name looked skipped)"
  unfolding waitForStack_def
  by (rule emits_andThen [OF emits_awaitStable]) (auto simp: emits_def)

lemma keeps_waitForStack: "keeps (waitForStack w options cfn name looked skipped)"
  unfolding waitForStack_def
  by (rule keeps_andThen [OF keeps_awaitStable]) (auto simp: keeps_def)

lemma emits_rollbackIteration_rest:
  "emits isRollbackCall
     (case rollbackChoice (stackStatus looked) of
        NONE \<Rightarrow>
          andThen (logging WARNING m1)
            (\<lambda>_. ret (Return \<lparr>notInRollbackableState = Some True, success = None\<rparr>))
      | START_ROLLBACK \<Rightarrow>
          andThen (logging DEBUG m2)
            (\<lambda>_ s.
               andThen
                 (call (RollbackStackCall cfn name role (randomUUID w (trace s)) True)
                    (cfnRollbackStack w cfn name))
                 (\<lambda>_. waitForStack w options cfn name looked skipped) s)
      | CONTINUE_UPDATE_ROLLBACK \<Rightarrow>
          andThen
            (if truthy (force options)
             then andThen (call (PollEvents cfn name statuses) (pollResourceErrors w cfn name))
                    (\<lambda>resourceErrors. ret (failedResourcesOfStack resourceErrors))
             else ret skipped)
            (\<lambda>skipped'.
               andThen (logging WARNING (m3 skipped'))
                 (\<lambda>_ s.
                    andThen
                      (call (ContinueUpdateRollbackCall cfn name (randomUUID w (trace s)) role
                               skipped')
                         (cfnContinueUpdateRollback w cfn name skipped'))
                      (\<lambda>_. waitForStack w options cfn name looked skipped') s))
      | ROLLBACK_FAILED \<Rightarrow>
          andThen (logging WARNING m4)
            (\<lambda>_. ret (Return \<lparr>notInRollbackableState = Some True, success = None\<rparr>))
      | UNEXPECTED rendering \<Rightarrow> throw (Error (m5 rendering)))"
proof -
  have start: "emits isRollbackCall
      (\<lambda>s. andThen
             (call (RollbackStackCall cfn name role (randomUUID w (trace s)) True)
                (cfnRollbackStack w cfn name))
             (\<lambda>_. waitForStack w options cfn name looked skipped) s)"
  proof -
    have "emits isRollbackCall
        (andThen (call (RollbackStackCall cfn name role token True) (cfnRollbackStack w cfn name))
           (\<lambda>_. waitForStack w options cfn name looked skipped))" for token
      by (intro emits_andThen emits_call emits_waitForStack) simp
    then show ?thesis unfolding emits_def by blast
  qed
  have continue: "emits isRollbackCall
      (\<lambda>s. andThen
             (call (ContinueUpdateRollbackCall cfn name (randomUUID w (trace s)) role skipped')
                (cfnContinueUpdateRollback w cfn name skipped'))
             (\<lambda>_. waitForStack w options cfn name looked skipped') s)" for skipped'
  proof -
    have "emits isRollbackCall
        (andThen
           (call (ContinueUpdateRollbackCall cfn name token role skipped')
              (cfnContinueUpdateRollback w cfn name skipped'))
           (\<lambda>_. waitForStack w options cfn name looked skipped'))" for token
      by (intro emits_andThen emits_call emits_waitForStack) simp
    then show ?thesis unfolding emits_def by blast
  qed
  have poll: "emits isRollbackCall
      (if truthy (force options)
       then andThen (call (PollEvents cfn name statuses) (pollResourceErrors w cfn name))
              (\<lambda>resourceErrors. ret (failedResourcesOfStack resourceErrors))
       else ret skipped)"
    by (simp add: emits_andThen emits_call emits_ret)
  show ?thesis
  proof (cases "rollbackChoice (stackStatus looked)")
    case NONE
    then show ?thesis by (simp add: emits_andThen emits_logging emits_ret)
  next
    case START_ROLLBACK
    then show ?thesis using start by (simp add: emits_andThen emits_logging)
  next
    case CONTINUE_UPDATE_ROLLBACK
    then show ?thesis using continue poll by (simp add: emits_andThen emits_logging)
  next
    case ROLLBACK_FAILED
    then show ?thesis by (simp add: emits_andThen emits_logging emits_ret)
  next
    case (UNEXPECTED rendering)
    then show ?thesis by (simp add: emits_throw)
  qed
qed


lemma emits_rollbackIteration:
  "emits (\<lambda>e. isLookup e \<or> isRollbackCall e)
     (rollbackIteration w options cfn name role skipped)"
  unfolding rollbackIteration_def
  apply (rule emits_andThen)
   apply (rule emits_call)
   apply simp
  apply (rule emits_mono [OF emits_rollbackIteration_rest])
  apply simp
  done

lemma keeps_rollbackIteration:
  "keeps (rollbackIteration w options cfn name role skipped)"
proof -
  have start: "keeps
      (\<lambda>s. andThen
             (call (RollbackStackCall cfn name role (randomUUID w (trace s)) True)
                (cfnRollbackStack w cfn name))
             (\<lambda>_. waitForStack w options cfn name looked skipped) s)" for looked
  proof -
    have "keeps
        (andThen (call (RollbackStackCall cfn name role token True) (cfnRollbackStack w cfn name))
           (\<lambda>_. waitForStack w options cfn name looked skipped))" for token
      by (intro keeps_andThen keeps_call keeps_waitForStack)
    then show ?thesis unfolding keeps_def by blast
  qed
  have continue: "keeps
      (\<lambda>s. andThen
             (call (ContinueUpdateRollbackCall cfn name (randomUUID w (trace s)) role skipped')
                (cfnContinueUpdateRollback w cfn name skipped'))
             (\<lambda>_. waitForStack w options cfn name looked skipped') s)" for skipped' looked
  proof -
    have "keeps
        (andThen
           (call (ContinueUpdateRollbackCall cfn name token role skipped')
              (cfnContinueUpdateRollback w cfn name skipped'))
           (\<lambda>_. waitForStack w options cfn name looked skipped'))" for token
      by (intro keeps_andThen keeps_call keeps_waitForStack)
    then show ?thesis unfolding keeps_def by blast
  qed
  have poll: "keeps
      (if truthy (force options)
       then andThen (call (PollEvents cfn name statuses) (pollResourceErrors w cfn name))
              (\<lambda>resourceErrors. ret (failedResourcesOfStack resourceErrors))
       else ret skipped)" for statuses
    by (simp add: keeps_andThen keeps_call keeps_ret)
  show ?thesis
    unfolding rollbackIteration_def
  proof (rule keeps_andThen [OF keeps_call])
    fix looked
    show "keeps
      (case rollbackChoice (stackStatus looked) of
         NONE \<Rightarrow>
           andThen
             (logging WARNING
                (''Stack '' @ name @ '' does not need a rollback: ''
                 @ statusText (stackStatus looked)))
             (\<lambda>_. ret (Return \<lparr>notInRollbackableState = Some True, success = None\<rparr>))
       | START_ROLLBACK \<Rightarrow>
           andThen (logging DEBUG (''Initiating rollback of stack '' @ name))
             (\<lambda>_ s.
                andThen
                  (call (RollbackStackCall cfn name role (randomUUID w (trace s)) True)
                     (cfnRollbackStack w cfn name))
                  (\<lambda>_. waitForStack w options cfn name looked skipped) s)
       | CONTINUE_UPDATE_ROLLBACK \<Rightarrow>
           andThen
             (if truthy (force options)
              then andThen
                     (call (PollEvents cfn name
                              [''ROLLBACK_IN_PROGRESS'', ''UPDATE_ROLLBACK_IN_PROGRESS''])
                        (pollResourceErrors w cfn name))
                     (\<lambda>resourceErrors. ret (failedResourcesOfStack resourceErrors))
              else ret skipped)
             (\<lambda>resourcesToSkip'.
                andThen
                  (logging WARNING
                     (''Continuing rollback of stack '' @ name
                      @ (if length resourcesToSkip' > 0
                         then '' (orphaning: '' @ join '', '' resourcesToSkip' @ '')''
                         else [])))
                  (\<lambda>_ s.
                     andThen
                       (call (ContinueUpdateRollbackCall cfn name (randomUUID w (trace s)) role
                                resourcesToSkip')
                          (cfnContinueUpdateRollback w cfn name resourcesToSkip'))
                       (\<lambda>_. waitForStack w options cfn name looked resourcesToSkip') s))
       | ROLLBACK_FAILED \<Rightarrow>
           andThen
             (logging WARNING
                (''Stack '' @ name
                 @ '' failed creation and rollback. This state cannot be rolled back. ''
                 @ ''You can recreate this stack by running '' @ [CHR 0x27] @ ''cdk deploy''
                 @ [CHR 0x27] @ ''.''))
             (\<lambda>_. ret (Return \<lparr>notInRollbackableState = Some True, success = None\<rparr>))
       | UNEXPECTED rendering \<Rightarrow>
           throw (Error (''Unexpected rollback choice: '' @ rendering)))"
      using start continue poll
      by (cases "rollbackChoice (stackStatus looked)")
         (simp_all add: keeps_andThen keeps_logging keeps_ret keeps_throw)
  qed
qed

lemma emits_rollbackLoop:
  "emits (\<lambda>e. isLookup e \<or> isRollbackCall e) (rollbackLoop w options cfn name role n skipped)"
proof (induction n arbitrary: skipped)
  case 0
  show ?case by (simp add: emits_def)
next
  case (Suc n)
  show ?case
  proof (rule emitsI)
    fix s
    obtain new where new:
      "trace (snd (rollbackIteration w options cfn name role skipped s)) = trace s @ new"
      "\<forall>e\<in>set new. (isLookup e \<or> isRollbackCall e)"
      using emits_rollbackIteration by (rule emitsD)
    show "\<exists>new. trace (snd (rollbackLoop w options cfn name role (Suc n) skipped s))
             = trace s @ new \<and> (\<forall>e\<in>set new. (isLookup e \<or> isRollbackCall e))"
    proof (cases "rollbackIteration w options cfn name role skipped s")
      case (Pair r s')
      show ?thesis
      proof (cases r)
        case (Inl e)
        with Pair new show ?thesis by auto
      next
        case (Inr out)
        show ?thesis
        proof (cases out)
          case (Return result)
          with Pair Inr new show ?thesis by auto
        next
          case (Continue skipped')
          obtain more where more:
            "trace (snd (rollbackLoop w options cfn name role n skipped' s')) = trace s' @ more"
            "\<forall>e\<in>set more. (isLookup e \<or> isRollbackCall e)"
            using Suc.IH by (rule emitsD)
          from Pair Inr Continue new more
          have "trace (snd (rollbackLoop w options cfn name role (Suc n) skipped s))
                = trace s @ (new @ more)" by simp
          moreover from new more have "\<forall>e\<in>set (new @ more). (isLookup e \<or> isRollbackCall e)" by auto
          ultimately show ?thesis by blast
        qed
      qed
    qed
  qed
qed

lemma keeps_rollbackLoop:
  "keeps (rollbackLoop w options cfn name role n skipped)"
proof (induction n arbitrary: skipped)
  case 0
  show ?case by (simp add: keeps_def)
next
  case (Suc n)
  have step: "sdkCache s \<subseteq>\<^sub>m sdkCache (snd (rollbackIteration w options cfn name role skipped s))
     \<and> publisherCache s \<subseteq>\<^sub>m publisherCache (snd (rollbackIteration w options cfn name role skipped s))" for s
    using keeps_rollbackIteration [of w options cfn name role skipped] by (simp add: keeps_def)
  have rest: "sdkCache s \<subseteq>\<^sub>m sdkCache (snd (rollbackLoop w options cfn name role n sk s))
     \<and> publisherCache s \<subseteq>\<^sub>m publisherCache (snd (rollbackLoop w options cfn name role n sk s))" for s sk
    using Suc.IH [of sk] by (simp add: keeps_def)
  show ?case
  proof (rule keepsI)
    fix s
    show "sdkCache s \<subseteq>\<^sub>m sdkCache (snd (rollbackLoop w options cfn name role (Suc n) skipped s))"
      using step [of s] rest
      by (auto split: prod.splits sum.splits outcome.splits intro: map_le_trans)
  next
    fix s
    show "publisherCache s \<subseteq>\<^sub>m publisherCache (snd (rollbackLoop w options cfn name role (Suc n) skipped s))"
      using step [of s] rest
      by (auto split: prod.splits sum.splits outcome.splits intro: map_le_trans)
  qed
qed

lemma emits_rollbackStack:
  "emits (\<lambda>e. isCredentialCall e \<or> isVersionCall e \<or> isLookup e \<or> isRollbackCall e)
     (rollbackStack w options)"
  unfolding rollbackStack_def Let_def
  by (intro emits_if emits_throw emits_andThen
        emits_mono [OF emits_prepareSdkFor] emits_mono [OF emits_rollbackGate]
        emits_mono [OF emits_rollbackLoop]) simp_all

lemma keeps_rollbackStack: "keeps (rollbackStack w options)"
  unfolding rollbackStack_def Let_def
  by (intro keeps_if keeps_throw keeps_andThen keeps_prepareSdkFor keeps_rollbackGate
        keeps_rollbackLoop)

lemma emits_deployStack:
  "emits (\<lambda>e. isCredentialCall e \<or> isVersionCall e \<or> mutating e) (deployStack w options)"
  unfolding deployStack_def Let_def
  by (intro emits_if emits_throw emits_ret emits_andThen emits_call
        emits_mono [OF emits_prepareSdkFor] emits_mono [OF emits_validateBootstrapStackVersion])
     simp_all

lemma keeps_deployStack: "keeps (deployStack w options)"
  unfolding deployStack_def Let_def
  by (intro keeps_if keeps_throw keeps_ret keeps_andThen keeps_call keeps_prepareSdkFor
        keeps_validateBootstrapStackVersion)

lemma emits_versionFromSsmParameter:
  "emits isVersionCall (versionFromSsmParameter w resources parameter)"
  by (simp add: versionFromSsmParameter_def emits_call)

lemma keeps_versionFromSsmParameter:
  "keeps (versionFromSsmParameter w resources parameter)"
  by (simp add: versionFromSsmParameter_def keeps_call)

lemma emits_assumeLookupRole:
  "emits (\<lambda>e. isCredentialCall e \<or> isVersionCall e \<or> isLog e)
     (assumeLookupRole w stk resolved arns)"
  unfolding assumeLookupRole_def Let_def
  by (intro emits_if emits_throw emits_ret emits_andThen emits_logging
        emits_mono [OF emits_cachedSdkForEnvironment]
        emits_mono [OF emits_versionFromSsmParameter])
     simp_all

lemma keeps_assumeLookupRole: "keeps (assumeLookupRole w stk resolved arns)"
  unfolding assumeLookupRole_def Let_def
  by (intro keeps_if keeps_throw keeps_ret keeps_andThen keeps_logging
        keeps_cachedSdkForEnvironment keeps_versionFromSsmParameter)

lemma emits_catch:
  assumes "emits K m" and "\<And>e. emits K (h e)"
  shows "emits K (\<lambda>s. case m s of (Inr x, s') \<Rightarrow> (Inr x, s') | (Inl e, s') \<Rightarrow> h e s')"
proof (rule emitsI)
  fix s
  obtain new where new: "trace (snd (m s)) = trace s @ new" "\<forall>e\<in>set new. K e"
    using assms(1) by (rule emitsD)
  show "\<exists>new. trace (snd (case m s of (Inr x, s') \<Rightarrow> (Inr x, s') | (Inl e, s') \<Rightarrow> h e s'))
           = trace s @ new \<and> (\<forall>e\<in>set new. K e)"
  proof (cases "m s")
    case (Pair r s')
    show ?thesis
    proof (cases r)
      case (Inr x)
      with Pair new show ?thesis by auto
    next
      case (Inl e)
      obtain more where more: "trace (snd (h e s')) = trace s' @ more" "\<forall>e\<in>set more. K e"
        using assms(2) by (rule emitsD)
      from Pair Inl new more
      have "trace (snd (case m s of (Inr x, s') \<Rightarrow> (Inr x, s') | (Inl e, s') \<Rightarrow> h e s'))
            = trace s @ (new @ more)" by simp
      moreover from new more have "\<forall>e\<in>set (new @ more). K e" by auto
      ultimately show ?thesis by blast
    qed
  qed
qed

lemma keeps_catch:
  assumes "keeps m" and "\<And>e. keeps (h e)"
  shows "keeps (\<lambda>s. case m s of (Inr x, s') \<Rightarrow> (Inr x, s') | (Inl e, s') \<Rightarrow> h e s')"
proof (rule keepsI)
  fix s
  show "sdkCache s \<subseteq>\<^sub>m
          sdkCache (snd (case m s of (Inr x, s') \<Rightarrow> (Inr x, s') | (Inl e, s') \<Rightarrow> h e s'))"
    using keeps_sdkCache [OF assms(1), of s] keeps_sdkCache [OF assms(2)]
    by (auto split: prod.splits sum.splits intro: map_le_trans)
next
  fix s
  show "publisherCache s \<subseteq>\<^sub>m
          publisherCache (snd (case m s of (Inr x, s') \<Rightarrow> (Inr x, s') | (Inl e, s') \<Rightarrow> h e s'))"
    using keeps_publisherCache [OF assms(1), of s] keeps_publisherCache [OF assms(2)]
    by (auto split: prod.splits sum.splits intro: map_le_trans)
qed

lemma emits_prepareSdkWithLookupRoleFor:
  "emits (\<lambda>e. isCredentialCall e \<or> isVersionCall e \<or> isLog e)
     (prepareSdkWithLookupRoleFor w stk)"
  unfolding prepareSdkWithLookupRoleFor_def Let_def
  by (intro emits_andThen emits_call emits_catch emits_if emits_logging emits_ret emits_throw
        emits_assumeLookupRole)
     simp_all

lemma keeps_prepareSdkWithLookupRoleFor: "keeps (prepareSdkWithLookupRoleFor w stk)"
  unfolding prepareSdkWithLookupRoleFor_def Let_def
  by (intro keeps_andThen keeps_call keeps_catch keeps_if keeps_logging keeps_ret keeps_throw
        keeps_assumeLookupRole)

lemma actsOn_andThen:
  assumes pre: "emits K pre" and none: "\<And>e. K e \<Longrightarrow> publisherOf e = None"
    and rest: "\<And>x. actsOn m (f x)" and grows: "\<And>x. emits K' (f x)"
  shows "actsOn m (andThen pre f)"
  unfolding actsOn_def added_def [symmetric]
proof (intro allI ballI impI)
  fix s e p
  assume e: "e \<in> set (added s (snd (andThen pre f s)))" and p: "publisherOf e = Some p"
  obtain new where new: "trace (snd (pre s)) = trace s @ new" "\<forall>e\<in>set new. K e"
    using pre by (rule emitsD)
  show "publisherCache (snd (andThen pre f s)) m = Some p"
  proof (cases "pre s")
    case (Pair r s')
    show ?thesis
    proof (cases r)
      case (Inl err)
      with Pair new e have "K e" by (auto simp: andThen_def added_def)
      with none p show ?thesis by fastforce
    next
      case (Inr x)
      obtain more where more: "trace (snd (f x s')) = trace s' @ more"
        using grows [of x] by (rule emitsD)
      from Pair Inr new more have "added s (snd (andThen pre f s)) = new @ more"
        by (simp add: andThen_def added_def)
      moreover from Pair more have "added s' (snd (f x s')) = more"
        by (simp add: added_def)
      ultimately have "e \<in> set new \<or> e \<in> set (added s' (snd (f x s')))"
        using e by auto
      then show ?thesis
      proof
        assume "e \<in> set new"
        with new none p show ?thesis by fastforce
      next
        assume "e \<in> set (added s' (snd (f x s')))"
        with rest [of x] p have "publisherCache (snd (f x s')) m = Some p"
          unfolding actsOn_def added_def by blast
        with Pair Inr show ?thesis by (simp add: andThen_def)
      qed
    qed
  qed
qed

lemma cachedPublisher_trace [simp]:
  "trace (snd (cachedPublisher w m env name s)) = trace s"
  by (simp add: cachedPublisher_def Let_def split: option.splits)

lemma cachedPublisher_sdkCache [simp]:
  "sdkCache (snd (cachedPublisher w m env name s)) = sdkCache s"
  by (simp add: cachedPublisher_def Let_def split: option.splits)

lemma cachedPublisher_cached:
  "publisherCache (snd (cachedPublisher w m env name s)) m
   = Some (fst (cachedPublisher w m env name s))"
  by (simp add: cachedPublisher_def Let_def split: option.splits)

lemma cachedPublisher_keeps:
  "publisherCache s \<subseteq>\<^sub>m publisherCache (snd (cachedPublisher w m env name s))"
  by (auto simp: cachedPublisher_def Let_def map_le_def split: option.splits)

lemma cachedPublisher_hit:
  "publisherCache s m = Some p \<Longrightarrow> cachedPublisher w m env name s = (p, s)"
  by (simp add: cachedPublisher_def)


lemma cachedPublisher_cases:
  obtains p s1 where "cachedPublisher w m env name s = (p, s1)" and "trace s1 = trace s"
    and "publisherCache s1 m = Some p" and "sdkCache s1 = sdkCache s"
    and "publisherCache s \<subseteq>\<^sub>m publisherCache s1"
proof (cases "cachedPublisher w m env name s")
  case (Pair p s1)
  with cachedPublisher_trace [of w m env name s] cachedPublisher_sdkCache [of w m env name s]
    cachedPublisher_cached [of w m env name s] cachedPublisher_keeps [of s w m env name]
  show ?thesis by (intro that [of p s1]) simp_all
qed

lemma publisher_tail:
  assumes G: "\<And>p s1. trace (snd (G p s1)) = trace s1 @ [ev p]
                \<and> publisherCache (snd (G p s1)) = publisherCache s1
                \<and> sdkCache (snd (G p s1)) = sdkCache s1"
    and ev: "\<And>p. publisherOf (ev p) = Some p"
  shows "actsOn m (\<lambda>s. let (publisher, s1) = cachedPublisher w m env name s in G publisher s1)"
    and "emits (\<lambda>e. True) (\<lambda>s. let (publisher, s1) = cachedPublisher w m env name s in G publisher s1)"
    and "keeps (\<lambda>s. let (publisher, s1) = cachedPublisher w m env name s in G publisher s1)"
proof -
  have all: "trace (snd (let (publisher, s1) = cachedPublisher w m env name s in G publisher s1))
               = trace s @ [ev p]
             \<and> publisherCache (snd (let (publisher, s1) = cachedPublisher w m env name s in G publisher s1)) m = Some p
             \<and> sdkCache s \<subseteq>\<^sub>m sdkCache (snd (let (publisher, s1) = cachedPublisher w m env name s in G publisher s1))
             \<and> publisherCache s \<subseteq>\<^sub>m publisherCache (snd (let (publisher, s1) = cachedPublisher w m env name s in G publisher s1))"
    if "p = fst (cachedPublisher w m env name s)" for s p
  proof -
    obtain q s1 where c: "cachedPublisher w m env name s = (q, s1)" "trace s1 = trace s"
      "publisherCache s1 m = Some q" "sdkCache s1 = sdkCache s"
      "publisherCache s \<subseteq>\<^sub>m publisherCache s1"
      by (rule cachedPublisher_cases)
    with that G [of q s1] show ?thesis by simp
  qed
  show "actsOn m (\<lambda>s. let (publisher, s1) = cachedPublisher w m env name s in G publisher s1)"
    unfolding actsOn_def added_def [symmetric]
  proof (intro allI ballI impI)
    fix s e p
    assume e: "e \<in> set (added s (snd (let (publisher, s1) = cachedPublisher w m env name s in G publisher s1)))"
      and p: "publisherOf e = Some p"
    from all [OF refl, of s] e have "e = ev (fst (cachedPublisher w m env name s))"
      by (simp add: added_def)
    with p ev have "p = fst (cachedPublisher w m env name s)" by simp
    with all [OF refl, of s]
    show "publisherCache (snd (let (publisher, s1) = cachedPublisher w m env name s in G publisher s1)) m = Some p"
      by simp
  qed
  show "emits (\<lambda>e. True) (\<lambda>s. let (publisher, s1) = cachedPublisher w m env name s in G publisher s1)"
    using all [OF refl] by (intro emitsI) simp
  show "keeps (\<lambda>s. let (publisher, s1) = cachedPublisher w m env name s in G publisher s1)"
    using all [OF refl] by (intro keepsI) simp_all
qed

lemma build_tail:
  "trace (snd (andThen (call (BuildEntry p asset) (buildEntry w p asset))
                (\<lambda>_ s2. if hasFailures w p (trace s2) then throw E s2 else ret () s2) s1))
     = trace s1 @ [BuildEntry p asset]
   \<and> publisherCache (snd (andThen (call (BuildEntry p asset) (buildEntry w p asset))
                (\<lambda>_ s2. if hasFailures w p (trace s2) then throw E s2 else ret () s2) s1))
     = publisherCache s1
   \<and> sdkCache (snd (andThen (call (BuildEntry p asset) (buildEntry w p asset))
                (\<lambda>_ s2. if hasFailures w p (trace s2) then throw E s2 else ret () s2) s1))
     = sdkCache s1"
  by (simp add: andThen_def split: sum.splits)

lemma publish_tail:
  "trace (snd (andThen (call (PublishEntry p asset) (publishEntry w p asset))
                (\<lambda>_ s2. if hasFailures w p (trace s2) then throw E s2 else ret () s2) s1))
     = trace s1 @ [PublishEntry p asset]
   \<and> publisherCache (snd (andThen (call (PublishEntry p asset) (publishEntry w p asset))
                (\<lambda>_ s2. if hasFailures w p (trace s2) then throw E s2 else ret () s2) s1))
     = publisherCache s1
   \<and> sdkCache (snd (andThen (call (PublishEntry p asset) (publishEntry w p asset))
                (\<lambda>_ s2. if hasFailures w p (trace s2) then throw E s2 else ret () s2) s1))
     = sdkCache s1"
  by (simp add: andThen_def split: sum.splits)

lemma published_tail:
  "trace (snd (call (IsEntryPublished p asset) (isEntryPublished w p asset) s1))
     = trace s1 @ [IsEntryPublished p asset]
   \<and> publisherCache (snd (call (IsEntryPublished p asset) (isEntryPublished w p asset) s1))
     = publisherCache s1
   \<and> sdkCache (snd (call (IsEntryPublished p asset) (isEntryPublished w p asset) s1))
     = sdkCache s1"
  by simp

lemma no_publisher:
  "isCredentialCall e \<Longrightarrow> publisherOf e = None"
  "isVersionCall e \<Longrightarrow> publisherOf e = None"
  "isRollbackCall e \<Longrightarrow> publisherOf e = None"
  "isLookup e \<Longrightarrow> publisherOf e = None"
  "isLog e \<Longrightarrow> publisherOf e = None"
  "mutating e \<Longrightarrow> publisherOf e = None"
  by (cases e; simp)+



lemma actsOn_buildSingleAsset: "actsOn m (buildSingleAsset w artifact m asset options)"
  unfolding buildSingleAsset_def
  apply (rule actsOn_andThen [OF emits_prepareSdkFor no_publisher(1)], assumption)
   apply (rule actsOn_andThen [OF emits_validateBootstrapStackVersion no_publisher(2)], assumption)
    apply (rule publisher_tail(1) [where ev = "\<lambda>p. BuildEntry p asset"])
     apply (rule build_tail)
    apply simp
   apply (rule publisher_tail(2) [where ev = "\<lambda>p. BuildEntry p asset"])
    apply (rule build_tail)
   apply simp
  apply (rule emits_andThen)
   apply (rule emits_mono [OF emits_validateBootstrapStackVersion])
   apply simp
  apply (rule publisher_tail(2) [where ev = "\<lambda>p. BuildEntry p asset"])
   apply (rule build_tail)
  apply simp
  done

lemma keeps_buildSingleAsset: "keeps (buildSingleAsset w artifact m asset options)"
  unfolding buildSingleAsset_def
  apply (rule keeps_andThen [OF keeps_prepareSdkFor])
  apply (rule keeps_andThen [OF keeps_validateBootstrapStackVersion])
  apply (rule publisher_tail(3) [where ev = "\<lambda>p. BuildEntry p asset"])
   apply (rule build_tail)
  apply simp
  done

lemma actsOn_publishSingleAsset: "actsOn m (publishSingleAsset w m asset options)"
  unfolding publishSingleAsset_def
  apply (rule actsOn_andThen [OF emits_prepareSdkFor no_publisher(1)], assumption)
   apply (rule publisher_tail(1) [where ev = "\<lambda>p. PublishEntry p asset"])
    apply (rule publish_tail)
   apply simp
  apply (rule publisher_tail(2) [where ev = "\<lambda>p. PublishEntry p asset"])
   apply (rule publish_tail)
  apply simp
  done

lemma keeps_publishSingleAsset: "keeps (publishSingleAsset w m asset options)"
  unfolding publishSingleAsset_def
  apply (rule keeps_andThen [OF keeps_prepareSdkFor])
  apply (rule publisher_tail(3) [where ev = "\<lambda>p. PublishEntry p asset"])
   apply (rule publish_tail)
  apply simp
  done

lemma actsOn_isSingleAssetPublished: "actsOn m (isSingleAssetPublished w m asset options)"
  unfolding isSingleAssetPublished_def
  apply (rule actsOn_andThen [OF emits_prepareSdkFor no_publisher(1)], assumption)
   apply (rule publisher_tail(1) [where ev = "\<lambda>p. IsEntryPublished p asset"])
    apply (rule published_tail)
   apply simp
  apply (rule publisher_tail(2) [where ev = "\<lambda>p. IsEntryPublished p asset"])
   apply (rule published_tail)
  apply simp
  done

lemma keeps_isSingleAssetPublished: "keeps (isSingleAssetPublished w m asset options)"
  unfolding isSingleAssetPublished_def
  apply (rule keeps_andThen [OF keeps_prepareSdkFor])
  apply (rule publisher_tail(3) [where ev = "\<lambda>p. IsEntryPublished p asset"])
   apply (rule published_tail)
  apply simp
  done

lemma keeps_step:
  "sdkCache s \<subseteq>\<^sub>m sdkCache (step w operation s)
   \<and> publisherCache s \<subseteq>\<^sub>m publisherCache (step w operation s)"
  using keeps_deployStack keeps_rollbackStack keeps_prepareSdkWithLookupRoleFor
    keeps_buildSingleAsset keeps_publishSingleAsset keeps_isSingleAssetPublished
  by (cases operation) (simp_all add: keeps_def)

lemma keeps_run:
  "sdkCache s \<subseteq>\<^sub>m sdkCache (run w operations s)
   \<and> publisherCache s \<subseteq>\<^sub>m publisherCache (run w operations s)"
proof (induction operations arbitrary: s)
  case Nil
  show ?case by simp
next
  case (Cons operation operations)
  from keeps_step [of s w operation] Cons.IH [of "step w operation s"]
  show ?case by (auto intro: map_le_trans)
qed

lemma step_actsOn:
  assumes "manifestOf operation = Some m" and "e \<in> set (added s (step w operation s))"
    and "publisherOf e = Some p"
  shows "publisherCache (step w operation s) m = Some p"
  using assms actsOn_buildSingleAsset [of m w] actsOn_publishSingleAsset [of m w]
    actsOn_isSingleAssetPublished [of m w]
  by (cases operation) (auto simp: actsOn_def added_def)


subsection \<open>Force and orphaning exclude each other\<close>

text \<open>
  C9. When \<open>force\<close> is set and the list of logical IDs to orphan is not empty,
  \<open>rollbackStack\<close> throws \<open>Cannot combine --force with --orphan\<close> at once: the instance is
  left as it was, so no environment or credential was resolved, no bootstrap version was
  validated and no stack was touched.
\<close>

theorem rollbackStack_force_orphan_rejected:
  "force options = Some True \<Longrightarrow> orphanLogicalIds options = Some ids \<Longrightarrow> ids \<noteq> [] \<Longrightarrow>
   rollbackStack w options s = (Inl (Error ''Cannot combine --force with --orphan''), s)"
  by (simp add: rollbackStack_def)

theorem rollbackStack_force_orphan_rejected_witness:
  "force ((exampleOptions None (Some True))\<lparr>orphanLogicalIds := Some [''Bucket'']\<rparr>) = Some True
   \<and> rollbackStack (exampleWorld 30 True (Inl (Error ''unreachable'')) (Inr None))
         ((exampleOptions None (Some True))\<lparr>orphanLogicalIds := Some [''Bucket'']\<rparr>)
         (newDeployments None)
       = (Inl (Error ''Cannot combine --force with --orphan''), newDeployments None)"
  using rollbackStack_force_orphan_rejected
    [of "(exampleOptions None (Some True))\<lparr>orphanLogicalIds := Some [''Bucket'']\<rparr>"
        "[''Bucket'']" "exampleWorld 30 True (Inl (Error ''unreachable'')) (Inr None)"
        "newDeployments None"]
  by (simp add: exampleOptions_def)

end
